theory Spec2Isabelle
  imports Main "HOL-Library.Word"
begin

unbundle bit_operations_syntax

section \<open>KnnFaiss: the nearest-neighbour adapter of Open3D/Geometry/KnnFaiss.cpp\<close>

text \<open>
  The adapter keeps a flat buffer of 32-bit floats, a handle to a faiss flat index and the
  two sizes. Member names of the source end in an underscore (\<open>data_\<close>), which is not a
  name here: a member \<open>x_\<close> is written \<open>x'\<close>.

  Floating-point values are kept as their IEEE-754 bit patterns (\<open>64 word\<close> for a
  \<open>double\<close>, \<open>32 word\<close> for a \<open>float\<close>): the adapter never computes with them, it
  only moves them. Memory is a list of bytes, with the little-endian object representation
  of the platforms the library is built for. Sizes (\<open>size_t\<close>, \<open>Eigen::Index\<close>) are
  \<open>nat\<close>: they are never negative and the products taken here are bounded by the size of
  an object that exists in memory. The \<open>int\<close> results and the count \<open>knn\<close> are only
  compared and passed on, so they are \<open>int\<close>.
\<close>

subsection \<open>Values and memory\<close>

type_synonym byte = "8 word"
type_synonym double = "64 word"
type_synonym float = "32 word"

definition sizeof_float :: nat where
  "sizeof_float = 4"

definition bytes_of_double :: "double \<Rightarrow> byte list" where
  "bytes_of_double w = map (\<lambda>i. ucast (drop_bit (8 * i) w)) [0..<8]"

definition bytes_of_float :: "float \<Rightarrow> byte list" where
  "bytes_of_float w = map (\<lambda>i. ucast (drop_bit (8 * i) w)) [0..<4]"

definition bytes_of_doubles :: "double list \<Rightarrow> byte list" where
  "bytes_of_doubles ds = concat (map bytes_of_double ds)"

definition bytes_of_floats :: "float list \<Rightarrow> byte list" where
  "bytes_of_floats fs = concat (map bytes_of_float fs)"

definition float_of_bytes :: "byte \<Rightarrow> byte \<Rightarrow> byte \<Rightarrow> byte \<Rightarrow> float" where
  "float_of_bytes b0 b1 b2 b3 =
     ucast b0 OR push_bit 8 (ucast b1) OR push_bit 16 (ucast b2) OR push_bit 24 (ucast b3)"

text \<open>A byte range read back as an array of floats (a trailing part of less than four
  bytes is no element).\<close>

fun floats_of_bytes :: "byte list \<Rightarrow> float list" where
  "floats_of_bytes (b0 # b1 # b2 # b3 # bs) = float_of_bytes b0 b1 b2 b3 # floats_of_bytes bs"
| "floats_of_bytes _ = []"

text \<open>\<open>memcpy(dst, src, n)\<close>: the first \<open>n\<close> bytes of \<open>dst\<close> become the first \<open>n\<close>
  bytes of \<open>src\<close>.\<close>

definition memcpy :: "byte list \<Rightarrow> byte list \<Rightarrow> nat \<Rightarrow> byte list" where
  "memcpy dst src n = take n src @ drop n dst"

text \<open>\<open>std::vector<float>::resize(n)\<close>: the first elements are kept, new ones are zero.\<close>

definition resize :: "nat \<Rightarrow> float list \<Rightarrow> float list" where
  "resize n xs = take n xs @ replicate (n - length xs) 0"

subsection \<open>The data the adapter is given\<close>

text \<open>A dense column-major matrix of doubles (\<open>Eigen::MatrixXd\<close>, or an
  \<open>Eigen::Map\<close> of one): \<open>rows()\<close>, \<open>cols()\<close> and the storage \<open>data()\<close> points to. A
  query vector is a matrix of one column.\<close>

record MatrixXd =
  rows :: nat
  cols :: nat
  data :: "double list"

definition Map :: "double list \<Rightarrow> nat \<Rightarrow> nat \<Rightarrow> MatrixXd" where
  "Map p r c = \<lparr>rows = r, cols = c, data = p\<rparr>"

definition wf_matrix :: "MatrixXd \<Rightarrow> bool" where
  "wf_matrix m = (length (data m) = rows m * cols m)"

type_synonym Vector3d = "double \<times> double \<times> double"

text \<open>The storage of a \<open>std::vector<Eigen::Vector3d>\<close>, read through a
  \<open>const double *\<close>.\<close>

fun Vector3d_data :: "Vector3d list \<Rightarrow> double list" where
  "Vector3d_data [] = []"
| "Vector3d_data ((x, y, z) # ps) = x # y # z # Vector3d_data ps"

datatype GeometryType =
  Unspecified | PointCloud | TriangleMesh | HalfEdgeTriangleMesh | Image | OtherGeometryType

record Geometry =
  geometry_type' :: GeometryType
  points' :: "Vector3d list"
  vertices' :: "Vector3d list"

definition GetGeometryType :: "Geometry \<Rightarrow> GeometryType" where
  "GetGeometryType g = geometry_type' g"

record Feature =
  feature_data' :: MatrixXd

datatype SearchType = Knn | Radius | Hybrid | OtherSearchType

record KDTreeSearchParam =
  search_type' :: SearchType
  knn' :: int
  radius' :: float
  max_nn' :: int

definition GetSearchType :: "KDTreeSearchParam \<Rightarrow> SearchType" where
  "GetSearchType p = search_type' p"

subsection \<open>The faiss index behind the adapter\<close>

text \<open>The flat index of the faiss library is not part of the repository. Of the object
  only what the adapter hands to it is kept: the dimension it was created with and the
  vectors added to it. What a search computes from them is left to the library: a search
  is recorded as the call that was made, with the index it was made on.\<close>

record IndexFlatL2 =
  index_d :: nat
  index_ntotal :: nat
  index_xb :: "float list"

definition new_IndexFlatL2 :: "nat \<Rightarrow> IndexFlatL2" where
  "new_IndexFlatL2 dim = \<lparr>index_d = dim, index_ntotal = 0, index_xb = []\<rparr>"

definition add :: "IndexFlatL2 \<Rightarrow> nat \<Rightarrow> float list \<Rightarrow> IndexFlatL2" where
  "add ix n x = ix\<lparr>index_ntotal := index_ntotal ix + n,
                   index_xb := index_xb ix @ take (n * index_d ix) x\<rparr>"

text \<open>What an operation does besides changing the adapter: warnings written to the log and
  calls of the index, in the order they happen. \<open>IndexSearch ix n x k\<close> is
  \<open>index->search(n, x, k, distances, labels)\<close> and \<open>IndexRangeSearch ix n x r\<close> is
  \<open>index->range_search(n, x, r, &result)\<close>; these calls are the only writes to the
  caller's output buffers.\<close>

datatype event =
  LogWarning string
| IndexSearch IndexFlatL2 nat "double list" int
| IndexRangeSearch IndexFlatL2 nat "double list" float

text \<open>Calling through an empty \<open>std::unique_ptr\<close> is no result.\<close>

datatype error = NullIndex

subsection \<open>The adapter\<close>

text \<open>Modelled from the spec: the members are declared in a header that is not among the
  sources. The buffer is "an internally owned flat column-major buffer of 32-bit floating
  point", which is also what \<open>index->add\<close> takes; the two sizes are compared with
  \<open>size_t (query.rows ())\<close> and are sizes; the handle is the owning pointer that
  \<open>index.reset\<close> and \<open>index->\<close> are used on.\<close>

record KnnFaiss =
  data' :: "float list"
  index' :: "IndexFlatL2 option"
  dimension' :: nat
  dataset_size' :: nat

text \<open>\<open>KnnFaiss::KnnFaiss()\<close> has an empty body: the vector starts empty and the pointer
  null. What the two sizes start as is decided by their declarations, which are not among
  the sources, so they are parameters.\<close>

definition KnnFaiss_new :: "nat \<Rightarrow> nat \<Rightarrow> KnnFaiss" where
  "KnnFaiss_new dim0 size0 =
     \<lparr>data' = [], index' = None, dimension' = dim0, dataset_size' = size0\<rparr>"

text \<open>\<open>SetRawData\<close> stores the two sizes first and tests them afterwards. The copy is
  a \<open>memcpy\<close> of \<open>dataset_size_ * dimension_ * sizeof(float)\<close> bytes from the storage
  of the doubles into the storage of the resized float buffer. The index is created with
  the stored dimension (the source writes \<open>dimension\<close> there) and given the buffer.\<close>

definition SetRawData :: "MatrixXd \<Rightarrow> KnnFaiss \<Rightarrow> bool \<times> KnnFaiss \<times> event list" where
  "SetRawData m s =
     (let s1 = s\<lparr>dimension' := rows m, dataset_size' := cols m\<rparr> in
      if dimension' s1 = 0 \<or> dataset_size' s1 = 0 then
        (False, s1, [LogWarning ''[KnnFaiss::SetRawData] Failed due to no data.''])
      else
        let n = dataset_size' s1 * dimension' s1;
            resized = resize n (data' s1);
            copied = floats_of_bytes
                       (memcpy (bytes_of_floats resized) (bytes_of_doubles (data m))
                          (n * sizeof_float));
            ix = add (new_IndexFlatL2 (dimension' s1)) (dataset_size' s1) copied
        in (True, s1\<lparr>data' := copied, index' := Some ix\<rparr>, []))"

definition SetMatrixData :: "MatrixXd \<Rightarrow> KnnFaiss \<Rightarrow> bool \<times> KnnFaiss \<times> event list" where
  "SetMatrixData m s = SetRawData (Map (data m) (rows m) (cols m)) s"

definition SetGeometry :: "Geometry \<Rightarrow> KnnFaiss \<Rightarrow> bool \<times> KnnFaiss \<times> event list" where
  "SetGeometry g s =
     (case GetGeometryType g of
        PointCloud \<Rightarrow>
          SetRawData (Map (Vector3d_data (points' g)) 3 (length (points' g))) s
      | TriangleMesh \<Rightarrow>
          SetRawData (Map (Vector3d_data (vertices' g)) 3 (length (vertices' g))) s
      | HalfEdgeTriangleMesh \<Rightarrow>
          SetRawData (Map (Vector3d_data (vertices' g)) 3 (length (vertices' g))) s
      | _ \<Rightarrow> (False, s, [LogWarning ''[KnnFaiss::SetGeometry] Unsupported Geometry type.'']))"

definition SetFeature :: "Feature \<Rightarrow> KnnFaiss \<Rightarrow> bool \<times> KnnFaiss \<times> event list" where
  "SetFeature f s = SetMatrixData (feature_data' f) s"

text \<open>The searches are \<open>const\<close> members; they still return the adapter, so that what they
  leave unchanged is a statement and not a convention.\<close>

definition SearchKNN ::
  "KnnFaiss \<Rightarrow> MatrixXd \<Rightarrow> int \<Rightarrow> error + (int \<times> KnnFaiss \<times> event list)" where
  "SearchKNN s query knn =
     (if data' s = [] \<or> dataset_size' s \<le> 0 \<or> rows query \<noteq> dimension' s \<or> knn < 0 then
        Inr (- 1, s, [])
      else
        case index' s of
          None \<Rightarrow> Inl NullIndex
        | Some ix \<Rightarrow> Inr (knn, s, [IndexSearch ix (cols query) (data query) knn]))"

definition SearchRadius ::
  "KnnFaiss \<Rightarrow> MatrixXd \<Rightarrow> float \<Rightarrow> error + (int \<times> KnnFaiss \<times> event list)" where
  "SearchRadius s query radius =
     (if data' s = [] \<or> dataset_size' s \<le> 0 \<or> rows query \<noteq> dimension' s then
        Inr (- 1, s, [])
      else
        case index' s of
          None \<Rightarrow> Inl NullIndex
        | Some ix \<Rightarrow> Inr (1, s, [IndexRangeSearch ix (cols query) (data query) radius]))"

definition Search ::
  "KnnFaiss \<Rightarrow> MatrixXd \<Rightarrow> KDTreeSearchParam \<Rightarrow> error + (int \<times> KnnFaiss \<times> event list)" where
  "Search s query param =
     (case GetSearchType param of
        Knn \<Rightarrow> SearchKNN s query (knn' param)
      | Radius \<Rightarrow> SearchRadius s query (radius' param)
      | Hybrid \<Rightarrow> Inr (- 1, s, [])
      | _ \<Rightarrow> Inr (- 1, s, []))"

text \<open>The four constructors: the default one, and the three that ingest at once.\<close>

definition KnnFaiss_of_matrix :: "nat \<Rightarrow> nat \<Rightarrow> MatrixXd \<Rightarrow> KnnFaiss" where
  "KnnFaiss_of_matrix dim0 size0 m = fst (snd (SetMatrixData m (KnnFaiss_new dim0 size0)))"

definition KnnFaiss_of_geometry :: "nat \<Rightarrow> nat \<Rightarrow> Geometry \<Rightarrow> KnnFaiss" where
  "KnnFaiss_of_geometry dim0 size0 g = fst (snd (SetGeometry g (KnnFaiss_new dim0 size0)))"

definition KnnFaiss_of_feature :: "nat \<Rightarrow> nat \<Rightarrow> Feature \<Rightarrow> KnnFaiss" where
  "KnnFaiss_of_feature dim0 size0 f = fst (snd (SetFeature f (KnnFaiss_new dim0 size0)))"

text \<open>The adapters a caller can hold: a new one, and what the public setters make of
  one.\<close>

inductive reachable :: "KnnFaiss \<Rightarrow> bool" where
  new: "reachable (KnnFaiss_new dim0 size0)"
| matrix: "reachable s \<Longrightarrow> reachable (fst (snd (SetMatrixData m s)))"
| geometry: "reachable s \<Longrightarrow> reachable (fst (snd (SetGeometry g s)))"
| feature: "reachable s \<Longrightarrow> reachable (fst (snd (SetFeature f s)))"

subsection \<open>Notions used in the statements\<close>

text \<open>The two 32-bit halves of a double's bit pattern, and an array of doubles read as
  an array of floats of twice the length.\<close>

definition low_half :: "double \<Rightarrow> float" where
  "low_half w = ucast w"

definition high_half :: "double \<Rightarrow> float" where
  "high_half w = ucast (drop_bit 32 w)"

fun halves :: "double list \<Rightarrow> float list" where
  "halves [] = []"
| "halves (w # ws) = low_half w # high_half w # halves ws"

text \<open>The first \<open>4 * cols * rows\<close> bytes of a matrix's storage, read as floats.\<close>

definition raw_floats :: "MatrixXd \<Rightarrow> float list" where
  "raw_floats m = floats_of_bytes (take (4 * (cols m * rows m)) (bytes_of_doubles (data m)))"

text \<open>Concrete inputs: the one-point matrix \<open>[[1.0]]\<close>, the adapter built from it, and a
  matrix of no rows and one column.\<close>

definition one_point :: MatrixXd where
  "one_point = \<lparr>rows = 1, cols = 1, data = [0x3FF0000000000000]\<rparr>"

definition built_example :: KnnFaiss where
  "built_example = fst (snd (SetMatrixData one_point (KnnFaiss_new 0 0)))"

definition no_rows :: MatrixXd where
  "no_rows = \<lparr>rows = 0, cols = 1, data = []\<rparr>"

text \<open>A matrix of three rows and no column, a query of one coordinate \<open>0.0\<close>,
  an image as a geometry, and the three kinds of search parameters (the radius is
  \<open>1.0f\<close>).\<close>

definition no_columns :: MatrixXd where
  "no_columns = \<lparr>rows = 3, cols = 0, data = []\<rparr>"

definition one_coordinate :: MatrixXd where
  "one_coordinate = \<lparr>rows = 1, cols = 1, data = [0]\<rparr>"

definition image_geometry :: Geometry where
  "image_geometry = \<lparr>geometry_type' = Image, points' = [], vertices' = []\<rparr>"

definition knn_param :: KDTreeSearchParam where
  "knn_param = \<lparr>search_type' = Knn, knn' = 1, radius' = 0, max_nn' = 0\<rparr>"

definition radius_param :: KDTreeSearchParam where
  "radius_param = \<lparr>search_type' = Radius, knn' = 0, radius' = 0x3F800000, max_nn' = 0\<rparr>"

definition hybrid_param :: KDTreeSearchParam where
  "hybrid_param = \<lparr>search_type' = Hybrid, knn' = 1, radius' = 0x3F800000, max_nn' = 1\<rparr>"

section \<open>Ingestion\<close>

subsection \<open>Sizes of the byte images\<close>

lemma length_bytes_of_float: "length (bytes_of_float w) = 4"
  by (simp add: bytes_of_float_def)

lemma length_bytes_of_double: "length (bytes_of_double w) = 8"
  by (simp add: bytes_of_double_def)

lemma length_bytes_of_floats: "length (bytes_of_floats fs) = 4 * length fs"
  by (induction fs) (simp_all add: bytes_of_floats_def length_bytes_of_float)

lemma length_bytes_of_doubles: "length (bytes_of_doubles ds) = 8 * length ds"
  by (induction ds) (simp_all add: bytes_of_doubles_def length_bytes_of_double)

lemma length_resize: "length (resize n xs) = n"
  by (simp add: resize_def)

lemma memcpy_whole: "length dst = n \<Longrightarrow> memcpy dst src n = take n src"
  by (simp add: memcpy_def)

lemma length_floats_of_bytes: "length (floats_of_bytes bs) = length bs div 4"
  by (induction bs rule: floats_of_bytes.induct) simp_all

lemma length_raw_floats: "wf_matrix m \<Longrightarrow> length (raw_floats m) = cols m * rows m"
  by (simp add: raw_floats_def length_floats_of_bytes length_bytes_of_doubles wf_matrix_def
      mult.commute)

subsection \<open>The two outcomes of \<open>SetRawData\<close>\<close>

lemma SetRawData_empty:
  "rows m = 0 \<or> cols m = 0 \<Longrightarrow>
   SetRawData m s =
     (False, s\<lparr>dimension' := rows m, dataset_size' := cols m\<rparr>,
      [LogWarning ''[KnnFaiss::SetRawData] Failed due to no data.''])"
  by (auto simp add: SetRawData_def Let_def)

lemma SetRawData_nonempty:
  assumes "rows m \<noteq> 0" "cols m \<noteq> 0"
  shows "SetRawData m s =
     (True,
      \<lparr>data' = raw_floats m,
       index' = Some \<lparr>index_d = rows m, index_ntotal = cols m,
                      index_xb = take (cols m * rows m) (raw_floats m)\<rparr>,
       dimension' = rows m, dataset_size' = cols m\<rparr>, [])"
  using assms
  by (simp add: SetRawData_def Let_def raw_floats_def memcpy_whole length_bytes_of_floats
      length_resize sizeof_float_def add_def new_IndexFlatL2_def mult.commute)

subsection \<open>Four bytes of a double are one of its halves\<close>

lemma float_of_bytes_low:
  "float_of_bytes (ucast (w::double)) (ucast (drop_bit 8 w)) (ucast (drop_bit 16 w))
     (ucast (drop_bit 24 w)) = low_half w"
  unfolding float_of_bytes_def low_half_def
  apply (rule bit_word_eqI)
  apply (auto simp add: bit_simps)
  subgoal for n by (cases "24 \<le> n") simp_all
  done

lemma float_of_bytes_high:
  "float_of_bytes (ucast (drop_bit 32 (w::double))) (ucast (drop_bit 40 w))
     (ucast (drop_bit 48 w)) (ucast (drop_bit 56 w)) = high_half w"
  unfolding float_of_bytes_def high_half_def
  apply (rule bit_word_eqI)
  apply (auto simp add: bit_simps)
  subgoal for n by (cases "24 \<le> n") (simp_all add: add.assoc [symmetric])
  done

lemma bytes_of_double_unfold:
  "bytes_of_double w =
     [ucast w, ucast (drop_bit 8 w), ucast (drop_bit 16 w), ucast (drop_bit 24 w),
      ucast (drop_bit 32 w), ucast (drop_bit 40 w), ucast (drop_bit 48 w),
      ucast (drop_bit 56 w)]"
  by (simp add: bytes_of_double_def upt_rec)

lemma floats_of_bytes_double:
  "floats_of_bytes (bytes_of_double w @ bs) = low_half w # high_half w # floats_of_bytes bs"
  by (simp add: bytes_of_double_unfold float_of_bytes_low float_of_bytes_high)

lemma floats_of_bytes_doubles: "floats_of_bytes (bytes_of_doubles ds) = halves ds"
  by (induction ds) (simp_all add: bytes_of_doubles_def floats_of_bytes_double)

lemma floats_of_bytes_take:
  "floats_of_bytes (take (4 * n) bs) = take n (floats_of_bytes bs)"
proof (induction bs arbitrary: n rule: floats_of_bytes.induct)
  case (1 b0 b1 b2 b3 bs)
  show ?case
  proof (cases n)
    case 0
    then show ?thesis by simp
  next
    case (Suc k)
    have "take (4 * Suc k) (b0 # b1 # b2 # b3 # bs) = b0 # b1 # b2 # b3 # take (4 * k) bs"
      by (simp add: take_Cons')
    then show ?thesis using 1 Suc by simp
  qed
qed (simp_all add: take_Cons')

lemma raw_floats_halves: "raw_floats m = take (cols m * rows m) (halves (data m))"
  by (simp add: raw_floats_def floats_of_bytes_take floats_of_bytes_doubles)

lemma length_halves: "length (halves ds) = 2 * length ds"
  by (induction ds) simp_all

lemma halves_nth:
  "j < 2 * length ds \<Longrightarrow>
   halves ds ! j = (if even j then low_half (ds ! (j div 2)) else high_half (ds ! (j div 2)))"
proof (induction ds arbitrary: j)
  case Nil
  then show ?case by simp
next
  case (Cons w ws)
  show ?case
  proof (cases j)
    case 0
    then show ?thesis by simp
  next
    case (Suc i)
    note j = Suc
    show ?thesis
    proof (cases i)
      case 0
      with j show ?thesis by simp
    next
      case (Suc k)
      with j Cons.prems have "k < 2 * length ws" by simp
      from Cons.IH [OF this] j Suc show ?thesis by simp
    qed
  qed
qed

lemma raw_floats_nth:
  assumes "wf_matrix m" "j < rows m * cols m"
  shows "raw_floats m ! j =
    (if even j then low_half (data m ! (j div 2)) else high_half (data m ! (j div 2)))"
proof -
  from assms have "j < 2 * length (data m)"
    by (simp add: wf_matrix_def)
  with assms show ?thesis
    by (simp add: raw_floats_halves halves_nth mult.commute)
qed

subsection \<open>A stored buffer comes with an index\<close>

text \<open>Only a successful \<open>SetRawData\<close> fills the buffer, and it creates the index in
  the same step: no adapter a caller can hold has a buffer and a null handle.\<close>

lemma reachable_index: "reachable s \<Longrightarrow> data' s \<noteq> [] \<Longrightarrow> index' s \<noteq> None"
proof (induction rule: reachable.induct)
  case (new dim0 size0)
  then show ?case by (simp add: KnnFaiss_new_def)
next
  case (matrix s m)
  then show ?case
    by (auto simp add: SetMatrixData_def SetRawData_def Let_def Map_def split: if_splits)
next
  case (geometry s g)
  then show ?case
    by (auto simp add: SetGeometry_def SetRawData_def Let_def Map_def
        split: if_splits GeometryType.splits)
next
  case (feature s f)
  then show ?case
    by (auto simp add: SetFeature_def SetMatrixData_def SetRawData_def Let_def Map_def
        split: if_splits)
qed

lemma reachable_index_Some:
  assumes "reachable s" "data' s \<noteq> []"
  obtains ix where "index' s = Some ix"
  using reachable_index [OF assms] by (cases "index' s") auto

subsection \<open>The adapter built from one point\<close>

lemma built_example_reachable: "reachable built_example"
  unfolding built_example_def by (intro reachable.intros)

lemma built_example_eq:
  "built_example =
     \<lparr>data' = [0], index' = Some \<lparr>index_d = 1, index_ntotal = 1, index_xb = [0]\<rparr>,
      dimension' = 1, dataset_size' = 1\<rparr>"
  by (simp add: built_example_def SetMatrixData_def Map_def one_point_def
      SetRawData_nonempty raw_floats_halves KnnFaiss_new_def low_half_def high_half_def)

subsection \<open>What a successful ingestion stores\<close>

text \<open>
  C1 (the buffer holds the element-wise float conversion of the source). The code copies
  \<open>dataset_size_ * dimension_ * sizeof(float)\<close> bytes of the double storage into the
  float buffer and converts nothing: for every matrix with at least one row and one column
  whose storage holds \<open>rows * cols\<close> doubles, ingestion returns true, the buffer has
  \<open>rows * cols\<close> elements, and element \<open>j\<close> of the buffer is a half of the bit pattern
  of source element \<open>j div 2\<close>: the low half when \<open>j\<close> is even, the high half when it is
  odd. The second half of the source never reaches the buffer.
\<close>

theorem SetRawData_copies_bytes:
  assumes "rows m \<noteq> 0" "cols m \<noteq> 0" "wf_matrix m" "j < rows m * cols m"
  shows "fst (SetRawData m s) = True \<and>
         length (data' (fst (snd (SetRawData m s)))) = rows m * cols m \<and>
         data' (fst (snd (SetRawData m s))) ! j =
           (if even j then low_half (data m ! (j div 2)) else high_half (data m ! (j div 2)))"
  using assms
  by (simp add: SetRawData_nonempty length_raw_floats raw_floats_nth mult.commute)

text \<open>The matrix \<open>[[1.0, 1.0]]\<close>: its two elements are equal, the two elements of the
  buffer are not (\<open>0.0f\<close> and \<open>1.875f\<close>), so the buffer is no element-wise function of
  the source.\<close>

theorem SetRawData_copies_bytes_witness:
  "data \<lparr>rows = 1, cols = 2, data = [0x3FF0000000000000, 0x3FF0000000000000]\<rparr> ! 0 =
   data \<lparr>rows = 1, cols = 2, data = [0x3FF0000000000000, 0x3FF0000000000000]\<rparr> ! 1 \<and>
   data' (fst (snd (SetRawData
      \<lparr>rows = 1, cols = 2, data = [0x3FF0000000000000, 0x3FF0000000000000]\<rparr>
      (KnnFaiss_new 0 0)))) ! 0 = 0 \<and>
   data' (fst (snd (SetRawData
      \<lparr>rows = 1, cols = 2, data = [0x3FF0000000000000, 0x3FF0000000000000]\<rparr>
      (KnnFaiss_new 0 0)))) ! 1 = 0x3FF00000"
  using SetRawData_copies_bytes [of
      "\<lparr>rows = 1, cols = 2, data = [0x3FF0000000000000, 0x3FF0000000000000]\<rparr>" 0
      "KnnFaiss_new 0 0"]
    SetRawData_copies_bytes [of
      "\<lparr>rows = 1, cols = 2, data = [0x3FF0000000000000, 0x3FF0000000000000]\<rparr>" 1
      "KnnFaiss_new 0 0"]
  by (simp add: wf_matrix_def low_half_def high_half_def)

text \<open>
  C2 (after ingesting a non-empty matrix, a search with \<open>k = 1\<close> for column \<open>i\<close> finds
  index \<open>i\<close> at distance 0). Ingestion of a non-empty matrix returns true, and a search
  with a query of the matrix's row count and \<open>k \<ge> 0\<close> returns \<open>k\<close> after one call of
  the index; but the index that is searched holds the halves of the first half of the
  source, not the columns of the matrix.
\<close>

theorem SearchKNN_after_SetRawData:
  assumes "rows m \<noteq> 0" "cols m \<noteq> 0" "wf_matrix m" "rows q = rows m" "0 \<le> k"
  shows "fst (SetRawData m s) = True \<and>
         SearchKNN (fst (snd (SetRawData m s))) q k =
           Inr (k, fst (snd (SetRawData m s)),
                [IndexSearch \<lparr>index_d = rows m, index_ntotal = cols m,
                              index_xb = take (cols m * rows m) (halves (data m))\<rparr>
                   (cols q) (data q) k])"
proof -
  from assms have "length (raw_floats m) \<noteq> 0"
    by (simp add: length_raw_floats)
  then have "raw_floats m \<noteq> []" by auto
  with assms show ?thesis
    by (simp add: SetRawData_nonempty SearchKNN_def raw_floats_halves)
qed

text \<open>The matrix \<open>[[1.0, 0.0]]\<close> and its column 1 as the query: the index searched
  holds \<open>0.0f\<close> at index 0 and \<open>1.875f\<close> at index 1, so the point nearest to the
  query \<open>0.0\<close> is index 0, not index 1.\<close>

theorem SearchKNN_after_SetRawData_witness:
  "fst (SetRawData \<lparr>rows = 1, cols = 2, data = [0x3FF0000000000000, 0]\<rparr>
          (KnnFaiss_new 0 0)) = True \<and>
   SearchKNN (fst (snd (SetRawData \<lparr>rows = 1, cols = 2, data = [0x3FF0000000000000, 0]\<rparr>
                          (KnnFaiss_new 0 0))))
       \<lparr>rows = 1, cols = 1, data = [0]\<rparr> 1 =
     Inr (1, fst (snd (SetRawData \<lparr>rows = 1, cols = 2, data = [0x3FF0000000000000, 0]\<rparr>
                          (KnnFaiss_new 0 0))),
          [IndexSearch \<lparr>index_d = 1, index_ntotal = 2, index_xb = [0, 0x3FF00000]\<rparr>
             1 [0] 1])"
  using SearchKNN_after_SetRawData [of
      "\<lparr>rows = 1, cols = 2, data = [0x3FF0000000000000, 0]\<rparr>"
      "\<lparr>rows = 1, cols = 1, data = [0]\<rparr>" 1 "KnnFaiss_new 0 0"]
  by (simp add: wf_matrix_def low_half_def high_half_def)

subsection \<open>Ingesting an empty matrix\<close>

text \<open>Without a buffer, or with a dataset size of zero, every search fails; so an empty
  matrix given to an adapter that was never built, or an empty matrix of no columns, does
  leave an adapter on which every search returns -1.\<close>

lemma searches_fail_without_buffer:
  assumes "data' s = [] \<or> dataset_size' s = 0"
  shows "SearchKNN s q k = Inr (- 1, s, [])"
    and "SearchRadius s q radius = Inr (- 1, s, [])"
    and "Search s q p = Inr (- 1, s, [])"
proof -
  show knn: "\<And>k. SearchKNN s q k = Inr (- 1, s, [])"
    using assms by (auto simp add: SearchKNN_def)
  show rad: "\<And>radius. SearchRadius s q radius = Inr (- 1, s, [])"
    using assms by (auto simp add: SearchRadius_def)
  show "Search s q p = Inr (- 1, s, [])"
    by (cases "GetSearchType p") (simp_all add: Search_def knn rad)
qed

lemma empty_ingestion_on_unbuilt_or_no_columns:
  assumes "rows m = 0 \<or> cols m = 0" "data' s = [] \<or> cols m = 0"
  shows "fst (SetRawData m s) = False"
    and "SearchKNN (fst (snd (SetRawData m s))) q k = Inr (- 1, fst (snd (SetRawData m s)), [])"
    and "SearchRadius (fst (snd (SetRawData m s))) q radius =
           Inr (- 1, fst (snd (SetRawData m s)), [])"
    and "Search (fst (snd (SetRawData m s))) q p = Inr (- 1, fst (snd (SetRawData m s)), [])"
proof -
  let ?s = "fst (snd (SetRawData m s))"
  from assms have "data' ?s = [] \<or> dataset_size' ?s = 0"
    by (auto simp add: SetRawData_empty)
  from searches_fail_without_buffer [OF this]
  show "SearchKNN ?s q k = Inr (- 1, ?s, [])"
    and "SearchRadius ?s q radius = Inr (- 1, ?s, [])"
    and "Search ?s q p = Inr (- 1, ?s, [])" .
  from assms(1) show "fst (SetRawData m s) = False"
    by (simp add: SetRawData_empty)
qed

text \<open>
  C3 (ingesting a matrix of no rows or no columns returns false, and every later search
  returns -1). Ingestion does return false, but it keeps the buffer and the index of an
  earlier build, and the searches do not test the stored dimension for zero: on an adapter
  that was built before, after ingesting a matrix of no rows and at least one column, a
  search with a query of no rows and \<open>k \<ge> 0\<close> passes the guard, calls the old index and
  returns \<open>k\<close>.
\<close>

theorem SearchKNN_on_stale_index:
  assumes "data' s \<noteq> []" "index' s = Some ix" "rows m = 0" "cols m \<noteq> 0"
    "rows q = 0" "0 \<le> k"
  shows "fst (SetRawData m s) = False \<and>
         SearchKNN (fst (snd (SetRawData m s))) q k =
           Inr (k, fst (snd (SetRawData m s)), [IndexSearch ix (cols q) (data q) k])"
  using assms by (simp add: SetRawData_empty SearchKNN_def)

theorem SearchKNN_on_stale_index_witness:
  "data' built_example \<noteq> [] \<and>
   index' built_example = Some \<lparr>index_d = 1, index_ntotal = 1, index_xb = [0]\<rparr> \<and>
   fst (SetRawData no_rows built_example) = False \<and>
   SearchKNN (fst (snd (SetRawData no_rows built_example)))
       \<lparr>rows = 0, cols = 1, data = []\<rparr> 1 =
     Inr (1, fst (snd (SetRawData no_rows built_example)),
          [IndexSearch \<lparr>index_d = 1, index_ntotal = 1, index_xb = [0]\<rparr> 1 [] 1])"
  using SearchKNN_on_stale_index [of built_example
      "\<lparr>index_d = 1, index_ntotal = 1, index_xb = [0]\<rparr>" no_rows
      "\<lparr>rows = 0, cols = 1, data = []\<rparr>" 1]
  by (simp add: built_example_eq no_rows_def)

subsection \<open>Re-ingesting an empty matrix over a built adapter\<close>

text \<open>
  C9, as stated, fails: the adapter built from \<open>[[1.0]]\<close> is given a matrix of no
  rows and one column. Ingestion returns false, but the stored dataset size is 1, not 0,
  and a search with an empty query and \<open>knn = 1\<close> calls the old index and returns 1,
  not -1.
\<close>

theorem reingestion_counterexample:
  "fst (SetMatrixData one_point (KnnFaiss_new 0 0)) = True \<and>
   fst (SetMatrixData no_rows built_example) = False \<and>
   dimension' (fst (snd (SetMatrixData no_rows built_example))) = 0 \<and>
   dataset_size' (fst (snd (SetMatrixData no_rows built_example))) = 1 \<and>
   Search (fst (snd (SetMatrixData no_rows built_example)))
       \<lparr>rows = 0, cols = 1, data = []\<rparr> knn_param =
     Inr (1, fst (snd (SetMatrixData no_rows built_example)),
          [IndexSearch \<lparr>index_d = 1, index_ntotal = 1, index_xb = [0]\<rparr> 1 [] 1])"
  by (simp add: SetMatrixData_def Map_def one_point_def no_rows_def SetRawData_empty
      SetRawData_nonempty built_example_eq Search_def GetSearchType_def knn_param_def
      SearchKNN_def)

text \<open>
  C9, amended: a failed re-ingestion from an empty matrix stores the matrix's row count as
  the dimension and its column count as the dataset size (so at least one of the two is
  zero), logs a warning, returns false and leaves the buffer and the index handle in
  place; after it, every search whose query has at least one row returns -1 without calling
  the index.
\<close>

theorem failed_reingestion:
  assumes "rows m = 0 \<or> cols m = 0"
  shows "SetRawData m s =
           (False, s\<lparr>dimension' := rows m, dataset_size' := cols m\<rparr>,
            [LogWarning ''[KnnFaiss::SetRawData] Failed due to no data.'']) \<and>
         (rows q \<noteq> 0 \<longrightarrow>
            SearchKNN (fst (snd (SetRawData m s))) q k =
              Inr (- 1, fst (snd (SetRawData m s)), []) \<and>
            SearchRadius (fst (snd (SetRawData m s))) q radius =
              Inr (- 1, fst (snd (SetRawData m s)), []) \<and>
            Search (fst (snd (SetRawData m s))) q p =
              Inr (- 1, fst (snd (SetRawData m s)), []))"
proof (intro conjI impI)
  show "SetRawData m s =
           (False, s\<lparr>dimension' := rows m, dataset_size' := cols m\<rparr>,
            [LogWarning ''[KnnFaiss::SetRawData] Failed due to no data.''])"
    by (rule SetRawData_empty [OF assms])
next
  assume q: "rows q \<noteq> 0"
  let ?s = "fst (snd (SetRawData m s))"
  from assms q have guard: "dataset_size' ?s \<le> 0 \<or> rows q \<noteq> dimension' ?s"
    by (auto simp add: SetRawData_empty)
  then show knn: "SearchKNN ?s q k = Inr (- 1, ?s, [])"
    by (auto simp add: SearchKNN_def)
  from guard show rad: "SearchRadius ?s q radius = Inr (- 1, ?s, [])"
    by (auto simp add: SearchRadius_def)
  have "\<And>k. SearchKNN ?s q k = Inr (- 1, ?s, [])"
    using guard by (auto simp add: SearchKNN_def)
  moreover have "\<And>r. SearchRadius ?s q r = Inr (- 1, ?s, [])"
    using guard by (auto simp add: SearchRadius_def)
  ultimately show "Search ?s q p = Inr (- 1, ?s, [])"
    by (cases "GetSearchType p") (simp_all add: Search_def)
qed

theorem failed_reingestion_witness:
  "SetRawData no_rows built_example =
     (False, \<lparr>data' = [0], index' = Some \<lparr>index_d = 1, index_ntotal = 1, index_xb = [0]\<rparr>,
              dimension' = 0, dataset_size' = 1\<rparr>,
      [LogWarning ''[KnnFaiss::SetRawData] Failed due to no data.'']) \<and>
   SearchKNN (fst (snd (SetRawData no_rows built_example))) one_coordinate 1 =
     Inr (- 1, fst (snd (SetRawData no_rows built_example)), []) \<and>
   SetRawData no_columns built_example =
     (False, \<lparr>data' = [0], index' = Some \<lparr>index_d = 1, index_ntotal = 1, index_xb = [0]\<rparr>,
              dimension' = 3, dataset_size' = 0\<rparr>,
      [LogWarning ''[KnnFaiss::SetRawData] Failed due to no data.'']) \<and>
   SearchRadius (fst (snd (SetRawData no_columns built_example)))
       \<lparr>rows = 3, cols = 1, data = [0, 0, 0]\<rparr> 0x3F800000 =
     Inr (- 1, fst (snd (SetRawData no_columns built_example)), [])"
proof -
  have r: "rows no_rows = 0 \<or> cols no_rows = 0"
    by (simp add: no_rows_def)
  have c: "rows no_columns = 0 \<or> cols no_columns = 0"
    by (simp add: no_columns_def)
  have q1: "rows one_coordinate \<noteq> 0"
    by (simp add: one_coordinate_def)
  have q3: "rows \<lparr>rows = 3, cols = 1, data = [0, 0, 0]\<rparr> \<noteq> 0"
    by simp
  note a = failed_reingestion [OF r, of built_example one_coordinate 1 0 knn_param]
  note b = failed_reingestion [OF c, of built_example
      "\<lparr>rows = 3, cols = 1, data = [0, 0, 0]\<rparr>" 1 "0x3F800000" knn_param]
  from a have a1: "SetRawData no_rows built_example =
      (False, built_example\<lparr>dimension' := rows no_rows, dataset_size' := cols no_rows\<rparr>,
       [LogWarning ''[KnnFaiss::SetRawData] Failed due to no data.''])"
    by (rule conjunct1)
  from a q1 have a2: "SearchKNN (fst (snd (SetRawData no_rows built_example))) one_coordinate 1 =
      Inr (- 1, fst (snd (SetRawData no_rows built_example)), [])"
    by blast
  from b have b1: "SetRawData no_columns built_example =
      (False, built_example\<lparr>dimension' := rows no_columns, dataset_size' := cols no_columns\<rparr>,
       [LogWarning ''[KnnFaiss::SetRawData] Failed due to no data.''])"
    by (rule conjunct1)
  from b q3 have b2: "SearchRadius (fst (snd (SetRawData no_columns built_example)))
       \<lparr>rows = 3, cols = 1, data = [0, 0, 0]\<rparr> 0x3F800000 =
     Inr (- 1, fst (snd (SetRawData no_columns built_example)), [])"
    by blast
  have a1': "SetRawData no_rows built_example =
     (False, \<lparr>data' = [0], index' = Some \<lparr>index_d = 1, index_ntotal = 1, index_xb = [0]\<rparr>,
              dimension' = 0, dataset_size' = 1\<rparr>,
      [LogWarning ''[KnnFaiss::SetRawData] Failed due to no data.''])"
    unfolding a1 by (simp add: built_example_eq no_rows_def)
  have b1': "SetRawData no_columns built_example =
     (False, \<lparr>data' = [0], index' = Some \<lparr>index_d = 1, index_ntotal = 1, index_xb = [0]\<rparr>,
              dimension' = 3, dataset_size' = 0\<rparr>,
      [LogWarning ''[KnnFaiss::SetRawData] Failed due to no data.''])"
    unfolding b1 by (simp add: built_example_eq no_columns_def)
  from a1' a2 b1' b2 show ?thesis by (intro conjI)
qed

subsection \<open>Ingesting an unsupported geometry\<close>

text \<open>
  C4: for every geometry whose type is none of point cloud, triangle mesh and half-edge
  triangle mesh (an image, an unspecified geometry, any other type), \<open>SetGeometry\<close> logs
  a warning, returns false and leaves the adapter exactly as it was, whatever was built
  before.
\<close>

theorem SetGeometry_unsupported:
  assumes "GetGeometryType g \<notin> {PointCloud, TriangleMesh, HalfEdgeTriangleMesh}"
  shows "SetGeometry g s =
    (False, s, [LogWarning ''[KnnFaiss::SetGeometry] Unsupported Geometry type.''])"
  using assms by (cases "GetGeometryType g") (simp_all add: SetGeometry_def)

theorem SetGeometry_unsupported_witness:
  "GetGeometryType image_geometry \<notin> {PointCloud, TriangleMesh, HalfEdgeTriangleMesh} \<and>
   SetGeometry image_geometry built_example =
     (False, built_example, [LogWarning ''[KnnFaiss::SetGeometry] Unsupported Geometry type.'']) \<and>
   data' built_example = [0] \<and> dimension' built_example = 1 \<and> dataset_size' built_example = 1"
  using SetGeometry_unsupported [of image_geometry built_example]
  by (simp add: image_geometry_def GetGeometryType_def built_example_eq)

section \<open>Searching\<close>

subsection \<open>Dispatch on the kind of search\<close>

text \<open>
  C5: for every adapter, query and parameter, \<open>Search\<close> is \<open>SearchKNN\<close> with the
  parameter's count when the tag is \<open>Knn\<close>, \<open>SearchRadius\<close> with the parameter's
  radius when the tag is \<open>Radius\<close>, and for \<open>Hybrid\<close> and every other tag it returns
  -1 as a value, with no call of the index and no change of the adapter.
\<close>

theorem Search_dispatch:
  "(GetSearchType p = Knn \<longrightarrow> Search s q p = SearchKNN s q (knn' p)) \<and>
   (GetSearchType p = Radius \<longrightarrow> Search s q p = SearchRadius s q (radius' p)) \<and>
   (GetSearchType p \<notin> {Knn, Radius} \<longrightarrow> Search s q p = Inr (- 1, s, []))"
  by (cases "GetSearchType p") (simp_all add: Search_def)

text \<open>On the adapter built from one point both operations succeed and call the index,
  and the hybrid search still returns -1 with no call.\<close>

theorem Search_dispatch_witness:
  "Search built_example one_coordinate knn_param = SearchKNN built_example one_coordinate 1 \<and>
   SearchKNN built_example one_coordinate 1 =
     Inr (1, built_example,
          [IndexSearch \<lparr>index_d = 1, index_ntotal = 1, index_xb = [0]\<rparr> 1 [0] 1]) \<and>
   Search built_example one_coordinate radius_param =
     SearchRadius built_example one_coordinate 0x3F800000 \<and>
   SearchRadius built_example one_coordinate 0x3F800000 =
     Inr (1, built_example,
          [IndexRangeSearch \<lparr>index_d = 1, index_ntotal = 1, index_xb = [0]\<rparr> 1 [0]
             0x3F800000]) \<and>
   Search built_example one_coordinate hybrid_param = Inr (- 1, built_example, [])"
  using Search_dispatch [of knn_param built_example one_coordinate]
    Search_dispatch [of radius_param built_example one_coordinate]
    Search_dispatch [of hybrid_param built_example one_coordinate]
  by (simp add: knn_param_def radius_param_def hybrid_param_def GetSearchType_def
      SearchKNN_def SearchRadius_def built_example_eq one_coordinate_def)

subsection \<open>The guards of the two searches\<close>

text \<open>
  C6: for every query and every \<open>k\<close>, \<open>SearchKNN\<close> returns -1 with no call of the
  index when the buffer is empty, or the dataset size is not positive, or the query's row
  count differs from the stored dimension, or \<open>k < 0\<close>; and when none of these holds,
  on an adapter a caller can hold, it calls the index once, with the query and \<open>k\<close>, and
  returns \<open>k\<close>.
\<close>

theorem SearchKNN_guard:
  "(data' s = [] \<or> dataset_size' s \<le> 0 \<or> rows q \<noteq> dimension' s \<or> k < 0 \<longrightarrow>
      SearchKNN s q k = Inr (- 1, s, [])) \<and>
   (reachable s \<and> data' s \<noteq> [] \<and> 0 < dataset_size' s \<and> rows q = dimension' s \<and> 0 \<le> k \<longrightarrow>
      (\<exists>ix. index' s = Some ix \<and>
            SearchKNN s q k = Inr (k, s, [IndexSearch ix (cols q) (data q) k])))"
proof (intro conjI impI)
  assume "data' s = [] \<or> dataset_size' s \<le> 0 \<or> rows q \<noteq> dimension' s \<or> k < 0"
  then show "SearchKNN s q k = Inr (- 1, s, [])"
    by (auto simp add: SearchKNN_def)
next
  assume ok: "reachable s \<and> data' s \<noteq> [] \<and> 0 < dataset_size' s \<and> rows q = dimension' s \<and> 0 \<le> k"
  then obtain ix where "index' s = Some ix"
    by (auto elim: reachable_index_Some)
  with ok show "\<exists>ix. index' s = Some ix \<and>
      SearchKNN s q k = Inr (k, s, [IndexSearch ix (cols q) (data q) k])"
    by (simp add: SearchKNN_def)
qed

theorem SearchKNN_guard_witness:
  "SearchKNN (KnnFaiss_new 0 0) one_coordinate 1 = Inr (- 1, KnnFaiss_new 0 0, []) \<and>
   SearchKNN built_example \<lparr>rows = 3, cols = 1, data = [0, 0, 0]\<rparr> 1 =
     Inr (- 1, built_example, []) \<and>
   SearchKNN built_example one_coordinate (- 2) = Inr (- 1, built_example, []) \<and>
   reachable built_example \<and>
   (\<exists>ix. index' built_example = Some ix \<and>
      SearchKNN built_example one_coordinate 5 =
        Inr (5, built_example, [IndexSearch ix 1 [0] 5]))"
  using SearchKNN_guard [of "KnnFaiss_new 0 0" one_coordinate 1]
    SearchKNN_guard [of built_example "\<lparr>rows = 3, cols = 1, data = [0, 0, 0]\<rparr>" 1]
    SearchKNN_guard [of built_example one_coordinate "- 2"]
    SearchKNN_guard [of built_example one_coordinate 5]
    built_example_reachable
  by (simp add: KnnFaiss_new_def built_example_eq one_coordinate_def)

text \<open>
  C7: \<open>SearchRadius\<close> fails on the same build and dimension conditions as
  \<open>SearchKNN\<close> (both return -1 with no call of the index), and when they are met it
  returns the constant 1 whatever the data and the radius are, where \<open>SearchKNN\<close>
  returns the count \<open>k\<close> it was asked for.
\<close>

theorem SearchRadius_guard_and_marker:
  "(data' s = [] \<or> dataset_size' s \<le> 0 \<or> rows q \<noteq> dimension' s \<longrightarrow>
      SearchRadius s q radius = Inr (- 1, s, []) \<and> SearchKNN s q k = Inr (- 1, s, [])) \<and>
   (reachable s \<and> data' s \<noteq> [] \<and> 0 < dataset_size' s \<and> rows q = dimension' s \<longrightarrow>
      (\<exists>ev. SearchRadius s q radius = Inr (1, s, ev)) \<and>
      (0 \<le> k \<longrightarrow> (\<exists>ev. SearchKNN s q k = Inr (k, s, ev))))"
proof (intro conjI impI)
  assume bad: "data' s = [] \<or> dataset_size' s \<le> 0 \<or> rows q \<noteq> dimension' s"
  then show "SearchRadius s q radius = Inr (- 1, s, [])"
    by (auto simp add: SearchRadius_def)
  from bad show "SearchKNN s q k = Inr (- 1, s, [])"
    by (auto simp add: SearchKNN_def)
next
  assume ok: "reachable s \<and> data' s \<noteq> [] \<and> 0 < dataset_size' s \<and> rows q = dimension' s"
  then obtain ix where ix: "index' s = Some ix"
    by (auto elim: reachable_index_Some)
  with ok show "\<exists>ev. SearchRadius s q radius = Inr (1, s, ev)"
    by (simp add: SearchRadius_def)
  assume "0 \<le> k"
  with ok ix show "\<exists>ev. SearchKNN s q k = Inr (k, s, ev)"
    by (simp add: SearchKNN_def)
qed

theorem SearchRadius_guard_and_marker_witness:
  "SearchRadius (KnnFaiss_new 0 0) one_coordinate 0x3F800000 = Inr (- 1, KnnFaiss_new 0 0, []) \<and>
   SearchRadius built_example \<lparr>rows = 3, cols = 1, data = [0, 0, 0]\<rparr> 0x3F800000 =
     Inr (- 1, built_example, []) \<and>
   reachable built_example \<and>
   (\<exists>ev. SearchRadius built_example one_coordinate 0x3F800000 = Inr (1, built_example, ev)) \<and>
   (\<exists>ev. SearchKNN built_example one_coordinate 7 = Inr (7, built_example, ev))"
  using SearchRadius_guard_and_marker [of "KnnFaiss_new 0 0" one_coordinate "0x3F800000" 7]
    SearchRadius_guard_and_marker [of built_example
      "\<lparr>rows = 3, cols = 1, data = [0, 0, 0]\<rparr>" "0x3F800000" 7]
    SearchRadius_guard_and_marker [of built_example one_coordinate "0x3F800000" 7]
    built_example_reachable
  by (simp add: KnnFaiss_new_def built_example_eq one_coordinate_def)

text \<open>
  C10: on a built adapter and for a query whose row count is the stored dimension,
  \<open>SearchRadius\<close> accepts every radius, negative ones included: it passes the radius
  to the range search of the index as it is and returns 1.
\<close>

theorem SearchRadius_any_radius:
  assumes "reachable s" "data' s \<noteq> []" "0 < dataset_size' s" "rows q = dimension' s"
  shows "\<exists>ix. index' s = Some ix \<and>
           SearchRadius s q radius =
             Inr (1, s, [IndexRangeSearch ix (cols q) (data q) radius])"
proof -
  from assms obtain ix where "index' s = Some ix"
    by (auto elim: reachable_index_Some)
  with assms show ?thesis
    by (simp add: SearchRadius_def)
qed

text \<open>The radius \<open>-1.0f\<close> (bit pattern \<open>0xBF800000\<close>).\<close>

theorem SearchRadius_any_radius_witness:
  "reachable built_example \<and> data' built_example \<noteq> [] \<and> 0 < dataset_size' built_example \<and>
   rows one_coordinate = dimension' built_example \<and>
   SearchRadius built_example one_coordinate 0xBF800000 =
     Inr (1, built_example,
          [IndexRangeSearch \<lparr>index_d = 1, index_ntotal = 1, index_xb = [0]\<rparr> 1 [0]
             0xBF800000])"
  using SearchRadius_any_radius [of built_example one_coordinate "0xBF800000"]
    built_example_reachable
  by (simp add: built_example_eq one_coordinate_def)

subsection \<open>Searching changes nothing\<close>

lemma SearchKNN_frame:
  "reachable s \<Longrightarrow> \<exists>r ev. SearchKNN s q k = Inr (r, s, ev)"
  by (cases "data' s = []")
     (auto simp add: SearchKNN_def elim: reachable_index_Some)

lemma SearchRadius_frame:
  "reachable s \<Longrightarrow> \<exists>r ev. SearchRadius s q radius = Inr (r, s, ev)"
  by (cases "data' s = []")
     (auto simp add: SearchRadius_def elim: reachable_index_Some)

lemma SearchKNN_Inr_same:
  "SearchKNN s q k = Inr (r, s', ev) \<Longrightarrow> s' = s"
  by (auto simp add: SearchKNN_def split: if_splits option.splits)

lemma SearchRadius_Inr_same:
  "SearchRadius s q radius = Inr (r, s', ev) \<Longrightarrow> s' = s"
  by (auto simp add: SearchRadius_def split: if_splits option.splits)

lemma Search_Inr_same:
  "Search s q p = Inr (r, s', ev) \<Longrightarrow> s' = s"
  by (cases "GetSearchType p")
     (auto simp add: Search_def dest: SearchKNN_Inr_same SearchRadius_Inr_same)

text \<open>
  C8: every search (\<open>Search\<close>, \<open>SearchKNN\<close>, \<open>SearchRadius\<close>), with any
  arguments and whether it succeeds or returns -1, returns with the adapter it was called
  on: buffer, dimension, dataset size and index handle are what they were. On an adapter a
  caller can hold every search does return; on any adapter at all, a search that returns
  returns the adapter unchanged. The only effects are the calls of the index, which write
  the caller's output buffers.
\<close>

theorem searches_keep_the_index:
  "(reachable s \<longrightarrow>
      (\<exists>r ev. Search s q p = Inr (r, s, ev)) \<and>
      (\<exists>r ev. SearchKNN s q k = Inr (r, s, ev)) \<and>
      (\<exists>r ev. SearchRadius s q radius = Inr (r, s, ev))) \<and>
   (Search s q p = Inr (r1, s1, ev1) \<longrightarrow> s1 = s) \<and>
   (SearchKNN s q k = Inr (r2, s2, ev2) \<longrightarrow> s2 = s) \<and>
   (SearchRadius s q radius = Inr (r3, s3, ev3) \<longrightarrow> s3 = s)"
proof (intro conjI impI)
  assume r: "reachable s"
  show "\<exists>r ev. Search s q p = Inr (r, s, ev)"
    using SearchKNN_frame [OF r] SearchRadius_frame [OF r]
    by (cases "GetSearchType p") (simp_all add: Search_def)
  show "\<exists>r ev. SearchKNN s q k = Inr (r, s, ev)"
    by (rule SearchKNN_frame [OF r])
  show "\<exists>r ev. SearchRadius s q radius = Inr (r, s, ev)"
    by (rule SearchRadius_frame [OF r])
next
  assume "Search s q p = Inr (r1, s1, ev1)"
  then show "s1 = s" by (rule Search_Inr_same)
next
  assume "SearchKNN s q k = Inr (r2, s2, ev2)"
  then show "s2 = s" by (rule SearchKNN_Inr_same)
next
  assume "SearchRadius s q radius = Inr (r3, s3, ev3)"
  then show "s3 = s" by (rule SearchRadius_Inr_same)
qed

theorem searches_keep_the_index_witness:
  "reachable built_example \<and>
   Search built_example one_coordinate knn_param =
     Inr (1, built_example,
          [IndexSearch \<lparr>index_d = 1, index_ntotal = 1, index_xb = [0]\<rparr> 1 [0] 1]) \<and>
   (\<exists>r ev. Search built_example one_coordinate hybrid_param = Inr (r, built_example, ev)) \<and>
   (\<exists>r ev. SearchKNN built_example one_coordinate (- 1) = Inr (r, built_example, ev)) \<and>
   (\<exists>r ev. SearchRadius built_example one_coordinate 0x3F800000 = Inr (r, built_example, ev))"
proof -
  note r = built_example_reachable
  have knn: "Search built_example one_coordinate knn_param =
     Inr (1, built_example,
          [IndexSearch \<lparr>index_d = 1, index_ntotal = 1, index_xb = [0]\<rparr> 1 [0] 1])"
    by (simp add: Search_def GetSearchType_def knn_param_def SearchKNN_def built_example_eq
        one_coordinate_def)
  from searches_keep_the_index [of built_example one_coordinate hybrid_param "- 1" "0x3F800000"] r
  have "(\<exists>r ev. Search built_example one_coordinate hybrid_param = Inr (r, built_example, ev)) \<and>
   (\<exists>r ev. SearchKNN built_example one_coordinate (- 1) = Inr (r, built_example, ev)) \<and>
   (\<exists>r ev. SearchRadius built_example one_coordinate 0x3F800000 = Inr (r, built_example, ev))"
    by blast
  with r knn show ?thesis by blast
qed

end
